theory Spec2Isabelle
  imports Complex_Main "HOL-Library.AList"
begin

section \<open>Exceptions of the Python source as values\<close>

text \<open>
  Every exception the modelled functions of \<^verbatim>\<open>tdc/chem_utils/oracle.py\<close> can raise is a
  constructor of \<open>exn\<close>; a function that can raise returns \<open>exn + 'a\<close>, with \<open>Inl\<close> for
  the exception. \<open>ArgumentError\<close> is the toolkit's \<^verbatim>\<open>Boost.Python.ArgumentError\<close>, raised
  when one of its functions is handed \<^verbatim>\<open>None\<close> in place of a molecule. \<open>NonFinite\<close> is
  no exception: it stands for the \<^verbatim>\<open>inf\<close> or \<^verbatim>\<open>nan\<close> that numpy returns where it
  divides by zero, values that the reals of this model do not have.
\<close>

datatype exn = KeyError | ZeroDivisionError | AssertionError | ArgumentError | NonFinite

section \<open>Retrosynthesis tree analysis\<close>

text \<open>
  A node of the planner's result is a dictionary with the keys \<^verbatim>\<open>ppg\<close>,
  \<^verbatim>\<open>plausibility\<close> and \<^verbatim>\<open>children\<close>; a key that is absent is \<open>None\<close>, and reading it
  raises \<open>KeyError\<close>. JSON numbers are modelled as reals.
\<close>

datatype node =
  Node (ppg: "real option") (plausibility: "real option") (children: "node list option")

text \<open>
  The tuple \<^verbatim>\<open>(num_path, status, depth, p_score, synthesizability, price)\<close>. The dictionary
  \<^verbatim>\<open>status\<close> is an association list in insertion order, \<^verbatim>\<open>{}\<close> being \<open>[]\<close>.
\<close>

type_synonym analysis = "int \<times> (real \<times> nat) list \<times> int \<times> real \<times> int \<times> real"

text \<open>Python's \<^verbatim>\<open>int(x)\<close> on a float truncates towards zero.\<close>

definition py_int :: "real \<Rightarrow> int" where
  "py_int x = (if 0 \<le> x then \<lfloor>x\<rfloor> else \<lceil>x\<rceil>)"

text \<open>
  The first \<^verbatim>\<open>for\<close> loop of an iteration: \<^verbatim>\<open>num_child += len(item['children'])\<close> and
  \<^verbatim>\<open>temp = temp + item['children']\<close> for every item of the frontier.
\<close>

fun collect_children :: "node list \<Rightarrow> nat \<Rightarrow> node list \<Rightarrow> exn + (nat \<times> node list)" where
  "collect_children [] num_child temp = Inr (num_child, temp)"
| "collect_children (item # rest) num_child temp =
     (case children item of
        None \<Rightarrow> Inl KeyError
      | Some cs \<Rightarrow> collect_children rest (num_child + length cs) (temp @ cs))"

text \<open>\<^verbatim>\<open>for sth in temp: p_score = p_score * sth['plausibility']\<close>\<close>

fun multiply_plausibility :: "real \<Rightarrow> node list \<Rightarrow> exn + real" where
  "multiply_plausibility p_score [] = Inr p_score"
| "multiply_plausibility p_score (sth # rest) =
     (case plausibility sth of
        None \<Rightarrow> Inl KeyError
      | Some p \<Rightarrow> multiply_plausibility (p_score * p) rest)"

text \<open>\<^verbatim>\<open>for mol in temp: price += mol['ppg']\<close>\<close>

fun add_ppg :: "real \<Rightarrow> node list \<Rightarrow> exn + real" where
  "add_ppg price [] = Inr price"
| "add_ppg price (mol # rest) =
     (case ppg mol of
        None \<Rightarrow> Inl KeyError
      | Some g \<Rightarrow> add_ppg (price + g) rest)"

text \<open>
  A frontier weighs the number of nodes below it; the frontier of the next iteration
  weighs less, which is why the \<^verbatim>\<open>while True\<close> loop ends.
\<close>

fun weight :: "node \<Rightarrow> nat" where
  "weight (Node g p None) = 1"
| "weight (Node g p (Some cs)) = Suc (sum_list (map weight cs))"

lemma collect_children_weight:
  "collect_children current n temp = Inr (n', temp') \<Longrightarrow>
     (current \<noteq> [] \<longrightarrow>
        sum_list (map weight temp') < sum_list (map weight temp) + sum_list (map weight current)) \<and>
     (current = [] \<longrightarrow> temp' = temp \<and> n' = n)"
proof (induction current n temp rule: collect_children.induct)
  case (1 num_child temp)
  then show ?case by simp
next
  case (2 item rest num_child temp)
  then obtain cs where cs: "children item = Some cs"
    by (auto split: option.splits)
  obtain g p where item: "item = Node g p (Some cs)"
    using cs by (cases item) auto
  from 2 cs have rec: "collect_children rest (num_child + length cs) (temp @ cs) = Inr (n', temp')"
    by simp
  from "2.IH" [OF cs rec] show ?case
    by (cases "rest = []") (auto simp: item)
qed

text \<open>
  The \<^verbatim>\<open>while True\<close> loop. Its state is the frontier \<^verbatim>\<open>current\<close> and the variables
  \<^verbatim>\<open>depth\<close>, \<^verbatim>\<open>p_score\<close>, \<^verbatim>\<open>status\<close> and \<^verbatim>\<open>price\<close>; it returns the last four at the
  \<^verbatim>\<open>break\<close>. \<^verbatim>\<open>depth % 1 != 0\<close> is \<open>frac depth \<noteq> 0\<close>.
\<close>

function tree_loop ::
  "node list \<Rightarrow> real \<Rightarrow> real \<Rightarrow> (real \<times> nat) list \<Rightarrow> real
     \<Rightarrow> exn + (real \<times> real \<times> (real \<times> nat) list \<times> real)" where
  "tree_loop current depth p_score status price =
     (case collect_children current 0 [] of
        Inl e \<Rightarrow> Inl e
      | Inr (num_child, temp) \<Rightarrow>
          if num_child = 0 then Inr (depth + 1 / 2, p_score, status, price)
          else if frac (depth + 1 / 2) \<noteq> 0 then
            (case multiply_plausibility p_score temp of
               Inl e \<Rightarrow> Inl e
             | Inr p_score' \<Rightarrow>
                 tree_loop temp (depth + 1 / 2) p_score'
                   (AList.update (depth + 1 / 2) num_child status) price)
          else
            (case add_ppg price temp of
               Inl e \<Rightarrow> Inl e
             | Inr price' \<Rightarrow>
                 tree_loop temp (depth + 1 / 2) p_score
                   (AList.update (depth + 1 / 2) num_child status) price'))"
  by pat_completeness auto
termination
proof (relation "measure (\<lambda>(current, depth, p_score, status, price). sum_list (map weight current))")
  show "wf (measure (\<lambda>(current, depth, p_score, status, price). sum_list (map weight current)))"
    by simp
next
  fix current :: "node list" and depth p_score :: real and status :: "(real \<times> nat) list"
    and price :: real and x2 x y p_score'
  assume c: "collect_children current 0 [] = Inr x2" and x: "(x, y) = x2" and nz: "x \<noteq> 0"
  from c x have c': "collect_children current 0 [] = Inr (x, y)" by simp
  from collect_children_weight [OF c'] nz have "current \<noteq> []"
    by auto
  with collect_children_weight [OF c']
  show "((y, depth + 1 / 2, p_score', AList.update (depth + 1 / 2) x status, price),
          current, depth, p_score, status, price)
        \<in> measure (\<lambda>(current, depth, p_score, status, price). sum_list (map weight current))"
    by simp
next
  fix current :: "node list" and depth p_score :: real and status :: "(real \<times> nat) list"
    and price :: real and x2 x y price'
  assume c: "collect_children current 0 [] = Inr x2" and x: "(x, y) = x2" and nz: "x \<noteq> 0"
  from c x have c': "collect_children current 0 [] = Inr (x, y)" by simp
  from collect_children_weight [OF c'] nz have "current \<noteq> []"
    by auto
  with collect_children_weight [OF c']
  show "((y, depth + 1 / 2, p_score, AList.update (depth + 1 / 2) x status, price'),
          current, depth, p_score, status, price)
        \<in> measure (\<lambda>(current, depth, p_score, status, price). sum_list (map weight current))"
    by simp
qed

text \<open>The statements after the loop, from \<^verbatim>\<open>if len(status) > 1\<close> to the \<^verbatim>\<open>return\<close>.\<close>

definition after_loop ::
  "nat \<Rightarrow> real \<times> real \<times> (real \<times> nat) list \<times> real \<Rightarrow> analysis" where
  "after_loop num_path s =
     (case s of (depth, p_score, status, price) \<Rightarrow>
        let synthesizability = (if length status > 1 then 1 else 0 :: int) in
        if py_int (depth - 1 / 2) = 0
        then (int num_path, status, 11, p_score * of_int synthesizability, synthesizability, - 1)
        else (int num_path, status, py_int (depth - 1 / 2),
              p_score * of_int synthesizability, synthesizability, price))"

text \<open>
  The planner's result is a dictionary with the keys \<^verbatim>\<open>error\<close>, \<^verbatim>\<open>price\<close> and
  \<^verbatim>\<open>trees\<close>, each present (\<open>Some\<close>) or absent (\<open>None\<close>).
\<close>

record search_result =
  error :: "string option"
  price :: "real option"
  trees :: "node list option"

text \<open>
  \<^verbatim>\<open>tree_analysis\<close>: the three early returns, then the loop from \<^verbatim>\<open>depth = 0\<close>,
  \<^verbatim>\<open>p_score = 1\<close>, \<^verbatim>\<open>status = {0:1}\<close>, \<^verbatim>\<open>price = 0\<close>.
\<close>

definition tree_analysis :: "search_result \<Rightarrow> exn + analysis" where
  "tree_analysis current =
     (if error current \<noteq> None then Inr (- 1, [], 11, - 1, - 1, - 1)
      else case price current of
        Some p \<Rightarrow> Inr (0, [], 0, 1, 1, p)
      | None \<Rightarrow>
          (case trees current of
             None \<Rightarrow> Inl KeyError
           | Some ts \<Rightarrow>
               (case ts of
                  t # _ \<Rightarrow>
                    (case ppg t of
                       None \<Rightarrow> Inl KeyError
                     | Some g \<Rightarrow>
                         if g \<noteq> 0 then Inr (0, [], 0, 1, 1, g)
                         else map_sum id (after_loop (length ts)) (tree_loop [t] 0 1 [(0, 1)] 0))
                | [] \<Rightarrow> map_sum id (after_loop (length ts)) (tree_loop [] 0 1 [(0, 1)] 0))))"

section \<open>Score modifiers\<close>

text \<open>
  One constructor for each \<^verbatim>\<open>ScoreModifier\<close> class, holding the attributes that
  \<^verbatim>\<open>__init__\<close> stores: \<^verbatim>\<open>ClippedScoreModifier\<close> keeps \<^verbatim>\<open>slope\<close> and \<^verbatim>\<open>intercept\<close>
  beside its four arguments, \<^verbatim>\<open>SmoothClippedScoreModifier\<close> keeps \<^verbatim>\<open>k\<close>, \<^verbatim>\<open>middle_x\<close> and
  \<^verbatim>\<open>L\<close>. \<^verbatim>\<open>MinMaxGaussianModifier\<close> stores \<^verbatim>\<open>mu\<close>, \<^verbatim>\<open>sigma\<close> and \<^verbatim>\<open>minimize\<close>; its
  \<^verbatim>\<open>_full_gaussian\<close> is the \<^verbatim>\<open>GaussianModifier\<close> of the same \<^verbatim>\<open>mu\<close> and \<^verbatim>\<open>sigma\<close>.
  Python floats are modelled as reals.
\<close>

datatype modifier =
    ChainedModifier "modifier list"
  | LinearModifier real
  | SquaredModifier real real
  | AbsoluteScoreModifier real
  | GaussianModifier real real
  | MinMaxGaussianModifier real real bool
  | ClippedScoreModifier real real real real real real
  | SmoothClippedScoreModifier real real real real real real real
  | ThresholdedLinearModifier real

subsection \<open>The constructors\<close>

text \<open>
  \<^verbatim>\<open>__init__\<close> of each class, with the arguments in the order of the source. Only the
  two clipped classes can fail: \<^verbatim>\<open>assert low_score < high_score\<close> raises
  \<open>AssertionError\<close>, and the divisions by \<^verbatim>\<open>upper_x - lower_x\<close>, a division of Python
  floats, raise \<open>ZeroDivisionError\<close> when the two are equal. The other constructors only
  store their arguments.
\<close>

definition ChainedModifier_init :: "modifier list \<Rightarrow> exn + modifier" where
  "ChainedModifier_init modifiers = Inr (ChainedModifier modifiers)"

definition LinearModifier_init :: "real \<Rightarrow> exn + modifier" where
  "LinearModifier_init slope = Inr (LinearModifier slope)"

definition SquaredModifier_init :: "real \<Rightarrow> real \<Rightarrow> exn + modifier" where
  "SquaredModifier_init target_value coefficient =
     Inr (SquaredModifier target_value coefficient)"

definition AbsoluteScoreModifier_init :: "real \<Rightarrow> exn + modifier" where
  "AbsoluteScoreModifier_init target_value = Inr (AbsoluteScoreModifier target_value)"

definition GaussianModifier_init :: "real \<Rightarrow> real \<Rightarrow> exn + modifier" where
  "GaussianModifier_init mu sigma = Inr (GaussianModifier mu sigma)"

definition MinMaxGaussianModifier_init :: "real \<Rightarrow> real \<Rightarrow> bool \<Rightarrow> exn + modifier" where
  "MinMaxGaussianModifier_init mu sigma minimize =
     Inr (MinMaxGaussianModifier mu sigma minimize)"

definition MinGaussianModifier_init :: "real \<Rightarrow> real \<Rightarrow> exn + modifier" where
  "MinGaussianModifier_init mu sigma = MinMaxGaussianModifier_init mu sigma True"

definition MaxGaussianModifier_init :: "real \<Rightarrow> real \<Rightarrow> exn + modifier" where
  "MaxGaussianModifier_init mu sigma = MinMaxGaussianModifier_init mu sigma False"

definition ClippedScoreModifier_init :: "real \<Rightarrow> real \<Rightarrow> real \<Rightarrow> real \<Rightarrow> exn + modifier" where
  "ClippedScoreModifier_init upper_x lower_x high_score low_score =
     (if \<not> low_score < high_score then Inl AssertionError
      else if upper_x - lower_x = 0 then Inl ZeroDivisionError
      else
        let slope = (high_score - low_score) / (upper_x - lower_x);
            intercept = high_score - slope * upper_x
        in Inr (ClippedScoreModifier upper_x lower_x high_score low_score slope intercept))"

definition SmoothClippedScoreModifier_init ::
  "real \<Rightarrow> real \<Rightarrow> real \<Rightarrow> real \<Rightarrow> exn + modifier" where
  "SmoothClippedScoreModifier_init upper_x lower_x high_score low_score =
     (if \<not> low_score < high_score then Inl AssertionError
      else if upper_x - lower_x = 0 then Inl ZeroDivisionError
      else
        let k = 4 / (upper_x - lower_x);
            middle_x = (upper_x + lower_x) / 2;
            L = high_score - low_score
        in Inr (SmoothClippedScoreModifier upper_x lower_x high_score low_score k middle_x L))"

definition ThresholdedLinearModifier_init :: "real \<Rightarrow> exn + modifier" where
  "ThresholdedLinearModifier_init threshold = Inr (ThresholdedLinearModifier threshold)"

subsection \<open>Applying a modifier\<close>

text \<open>
  The bell curve of \<^verbatim>\<open>GaussianModifier.__call__\<close>; \<^verbatim>\<open>np.power(z, 2.)\<close> is the square
  of \<^verbatim>\<open>z\<close>.
\<close>

definition gaussian :: "real \<Rightarrow> real \<Rightarrow> real \<Rightarrow> real" where
  "gaussian mu sigma x = exp (- (1 / 2) * ((x - mu) / sigma) ^ 2)"

text \<open>
  \<^verbatim>\<open>__call__\<close> of each class on a Python float \<^verbatim>\<open>x\<close>. In \<^verbatim>\<open>GaussianModifier\<close> the
  quotient \<^verbatim>\<open>(x - self.mu) / self.sigma\<close> is a division of Python floats, which raises
  \<open>ZeroDivisionError\<close> when \<^verbatim>\<open>sigma\<close> is zero. \<^verbatim>\<open>MinMaxGaussianModifier\<close> calls its
  \<^verbatim>\<open>_full_gaussian\<close> with the result of \<^verbatim>\<open>np.maximum\<close> or \<^verbatim>\<open>np.minimum\<close>, a numpy
  float, and numpy divides by zero with a warning: a quotient \<^verbatim>\<open>inf\<close> is squared and
  taken to \<^verbatim>\<open>exp(-inf)\<close>, which is 0, and a quotient \<^verbatim>\<open>nan\<close> stays \<^verbatim>\<open>nan\<close>, which
  the model reports as \<open>NonFinite\<close>. The division in \<^verbatim>\<open>ThresholdedLinearModifier\<close> is
  a numpy division too and gives \<^verbatim>\<open>inf\<close> or \<^verbatim>\<open>nan\<close> for the threshold zero.
  \<^verbatim>\<open>np.clip(y, lo, hi)\<close> is \<open>min (max y lo) hi\<close>. A chain applies each of its modifiers
  as on a Python float.
\<close>

fun call :: "modifier \<Rightarrow> real \<Rightarrow> exn + real"
  and call_chain :: "modifier list \<Rightarrow> real \<Rightarrow> exn + real" where
  "call (ChainedModifier modifiers) x = call_chain modifiers x"
| "call (LinearModifier slope) x = Inr (slope * x)"
| "call (SquaredModifier target_value coefficient) x =
     Inr (1 - coefficient * (target_value - x) ^ 2)"
| "call (AbsoluteScoreModifier target_value) x = Inr (1 - \<bar>target_value - x\<bar>)"
| "call (GaussianModifier mu sigma) x =
     (if sigma = 0 then Inl ZeroDivisionError else Inr (gaussian mu sigma x))"
| "call (MinMaxGaussianModifier mu sigma minimize) x =
     (let mod_x = (if minimize then max x mu else min x mu)
      in if sigma = 0 then (if mod_x = mu then Inl NonFinite else Inr 0)
         else Inr (gaussian mu sigma mod_x))"
| "call (ClippedScoreModifier upper_x lower_x high_score low_score slope intercept) x =
     (let y = slope * x + intercept in Inr (min (max y low_score) high_score))"
| "call (SmoothClippedScoreModifier upper_x lower_x high_score low_score k middle_x L) x =
     Inr (low_score + L / (1 + exp (- k * (x - middle_x))))"
| "call (ThresholdedLinearModifier threshold) x =
     (if threshold = 0 then Inl NonFinite else Inr (min x threshold / threshold))"
| "call_chain [] score = Inr score"
| "call_chain (modifier # rest) score =
     (case call modifier score of
        Inl e \<Rightarrow> Inl e
      | Inr score' \<Rightarrow> call_chain rest score')"

section \<open>Molecular formulas\<close>

text \<open>
  \<^verbatim>\<open>re.findall(r'([A-Z][a-z]*)(\d*)', formula)\<close> scans the string from the left. At a
  capital letter it takes the letter, the longest run of small letters after it and the
  longest run of digits after those, yields the two groups and goes on behind them; any
  other character is skipped. Nothing is raised. Characters are compared by their
  code points.
\<close>

definition code :: "char \<Rightarrow> nat" where
  "code c = of_char c"

definition is_upper :: "char \<Rightarrow> bool" where
  "is_upper c = (code CHR ''A'' \<le> code c \<and> code c \<le> code CHR ''Z'')"

definition is_lower :: "char \<Rightarrow> bool" where
  "is_lower c = (code CHR ''a'' \<le> code c \<and> code c \<le> code CHR ''z'')"

definition is_digit :: "char \<Rightarrow> bool" where
  "is_digit c = (code CHR ''0'' \<le> code c \<and> code c \<le> code CHR ''9'')"

function findall :: "string \<Rightarrow> (string \<times> string) list" where
  "findall [] = []"
| "findall (c # cs) =
     (if is_upper c
      then (c # takeWhile is_lower cs, takeWhile is_digit (dropWhile is_lower cs))
             # findall (dropWhile is_digit (dropWhile is_lower cs))
      else findall cs)"
  by pat_completeness auto
termination
proof (relation "measure length")
  show "wf (measure (length :: string \<Rightarrow> nat))"
    by simp
next
  fix c :: char and cs :: string
  have "length (dropWhile is_digit (dropWhile is_lower cs)) \<le> length (dropWhile is_lower cs)"
    by (rule length_dropWhile_le)
  also have "\<dots> \<le> length cs"
    by (rule length_dropWhile_le)
  finally show "(dropWhile is_digit (dropWhile is_lower cs), c # cs) \<in> measure length"
    by simp
next
  fix c :: char and cs :: string
  show "(cs, c # cs) \<in> measure length"
    by simp
qed

text \<open>\<^verbatim>\<open>int(s)\<close> on a string of decimal digits, read from the left.\<close>

definition digit_value :: "char \<Rightarrow> nat" where
  "digit_value c = code c - code CHR ''0''"

definition int_of_digits :: "string \<Rightarrow> nat" where
  "int_of_digits s = foldl (\<lambda>n c. 10 * n + digit_value c) 0 s"

definition parse_molecular_formula :: "string \<Rightarrow> (string \<times> nat) list" where
  "parse_molecular_formula formula =
     map (\<lambda>match. (fst match, if snd match = [] then 1 else int_of_digits (snd match)))
       (findall formula)"

text \<open>\<^verbatim>\<open>sum([cnt for atom,cnt in atom2cnt_lst])\<close>, as \<^verbatim>\<open>Isomer_scoring\<close> computes it.\<close>

definition total_atom_num :: "(string \<times> nat) list \<Rightarrow> nat" where
  "total_atom_num atom2cnt_lst = sum_list (map snd atom2cnt_lst)"

section \<open>The chemistry toolkit\<close>

text \<open>
  The functions of RDKit that the modelled code calls are parameters: a record of
  functions over a type \<open>'m\<close> of molecules and a type \<open>'fp\<close> of fingerprints.
  \<^verbatim>\<open>Chem.MolFromSmiles\<close> returns \<^verbatim>\<open>None\<close> for a string it cannot parse;
  \<^verbatim>\<open>SanitizeMol\<close> is \<open>False\<close> where \<^verbatim>\<open>Chem.SanitizeMol\<close> raises \<^verbatim>\<open>ValueError\<close>;
  \<^verbatim>\<open>GetMorganFingerprint\<close> takes the radius and \<^verbatim>\<open>useFeatures\<close>;
  \<^verbatim>\<open>GetNonzeroElements\<close> lists the identifiers of a fingerprint with their counts;
  \<^verbatim>\<open>FindMolChiralCenters\<close> gives the number of centers, the only use the code makes of
  its list; \<^verbatim>\<open>AtomRings\<close> gives the rings as lists of atom indices. All of them take a
  molecule: called with \<^verbatim>\<open>None\<close> they raise \<open>ArgumentError\<close>, which the callers below
  write out.
\<close>

record ('m, 'fp) rdkit =
  MolFromSmiles :: "string \<Rightarrow> 'm option"
  SanitizeMol :: "'m \<Rightarrow> bool"
  GetMorganFingerprint :: "'m \<Rightarrow> nat \<Rightarrow> bool \<Rightarrow> 'fp"
  GetAtomPairFingerprint :: "'m \<Rightarrow> 'fp"
  GetMorganFingerprintAsBitVect :: "'m \<Rightarrow> 'fp"
  GetNonzeroElements :: "'fp \<Rightarrow> (nat \<times> nat) list"
  TanimotoSimilarity :: "'fp \<Rightarrow> 'fp \<Rightarrow> real"
  GetNumAtoms :: "'m \<Rightarrow> nat"
  FindMolChiralCenters :: "'m \<Rightarrow> nat"
  CalcNumSpiroAtoms :: "'m \<Rightarrow> nat"
  CalcNumBridgeheadAtoms :: "'m \<Rightarrow> nat"
  AtomRings :: "'m \<Rightarrow> nat list list"
  TPSA :: "'m \<Rightarrow> real"
  MolLogP :: "'m \<Rightarrow> real"
  QED_qed :: "'m \<Rightarrow> real"

definition smiles_to_rdkit_mol :: "('m, 'fp) rdkit \<Rightarrow> string \<Rightarrow> 'm option" where
  "smiles_to_rdkit_mol tk smiles =
     (case MolFromSmiles tk smiles of
        None \<Rightarrow> None
      | Some mol \<Rightarrow> if SanitizeMol tk mol then Some mol else None)"

definition smiles_2_fingerprint_ECFP4 :: "('m, 'fp) rdkit \<Rightarrow> string \<Rightarrow> exn + 'fp" where
  "smiles_2_fingerprint_ECFP4 tk smiles =
     (case smiles_to_rdkit_mol tk smiles of
        None \<Rightarrow> Inl ArgumentError
      | Some molecule \<Rightarrow> Inr (GetMorganFingerprint tk molecule 2 False))"

definition smiles_2_fingerprint_FCFP4 :: "('m, 'fp) rdkit \<Rightarrow> string \<Rightarrow> exn + 'fp" where
  "smiles_2_fingerprint_FCFP4 tk smiles =
     (case smiles_to_rdkit_mol tk smiles of
        None \<Rightarrow> Inl ArgumentError
      | Some molecule \<Rightarrow> Inr (GetMorganFingerprint tk molecule 2 True))"

definition smiles_2_fingerprint_AP :: "('m, 'fp) rdkit \<Rightarrow> string \<Rightarrow> exn + 'fp" where
  "smiles_2_fingerprint_AP tk smiles =
     (case smiles_to_rdkit_mol tk smiles of
        None \<Rightarrow> Inl ArgumentError
      | Some molecule \<Rightarrow> Inr (GetAtomPairFingerprint tk molecule))"

definition smiles_2_fingerprint_ECFP6 :: "('m, 'fp) rdkit \<Rightarrow> string \<Rightarrow> exn + 'fp" where
  "smiles_2_fingerprint_ECFP6 tk smiles =
     (case smiles_to_rdkit_mol tk smiles of
        None \<Rightarrow> Inl ArgumentError
      | Some molecule \<Rightarrow> Inr (GetMorganFingerprint tk molecule 3 False))"

text \<open>The keys of the dictionary \<^verbatim>\<open>fp2fpfunc\<close> and the functions it holds.\<close>

datatype fp_name = ECFP4 | FCFP4 | AP | ECFP6

fun fp2fpfunc :: "fp_name \<Rightarrow> ('m, 'fp) rdkit \<Rightarrow> string \<Rightarrow> exn + 'fp" where
  "fp2fpfunc ECFP4 = smiles_2_fingerprint_ECFP4"
| "fp2fpfunc FCFP4 = smiles_2_fingerprint_FCFP4"
| "fp2fpfunc AP = smiles_2_fingerprint_AP"
| "fp2fpfunc ECFP6 = smiles_2_fingerprint_ECFP6"

section \<open>Synthetic accessibility\<close>

text \<open>
  The fragment loop of \<^verbatim>\<open>calculateScore\<close>: \<^verbatim>\<open>nf += v\<close> and
  \<^verbatim>\<open>score1 += _fscores.get(sfp,-4)*v\<close> for every fragment. The table \<^verbatim>\<open>_fscores\<close> is
  a parameter, a map from fragment identifiers to their contributions.
\<close>

fun fragment_loop ::
  "(nat \<rightharpoonup> real) \<Rightarrow> (nat \<times> nat) list \<Rightarrow> real \<Rightarrow> nat \<Rightarrow> real \<times> nat" where
  "fragment_loop fscores [] score1 nf = (score1, nf)"
| "fragment_loop fscores ((bitId, v) # rest) score1 nf =
     fragment_loop fscores rest
       (score1 + (case fscores bitId of None \<Rightarrow> - 4 | Some f \<Rightarrow> f) * real v) (nf + v)"

text \<open>
  \<^verbatim>\<open>score1 + score2 + score3\<close>. The division \<^verbatim>\<open>score1 /= nf\<close> raises
  \<open>ZeroDivisionError\<close> when no fragment was counted; otherwise \<^verbatim>\<open>fps\<close> is not empty and
  the quotient under \<^verbatim>\<open>math.log\<close> in \<^verbatim>\<open>score3\<close> is defined. \<^verbatim>\<open>nAtoms**1.005\<close> is
  \<open>powr\<close>, \<^verbatim>\<open>math.log10\<close> is \<open>log 10\<close>, \<^verbatim>\<open>math.log\<close> is \<open>ln\<close>.
\<close>

definition raw_score :: "('m, 'fp) rdkit \<Rightarrow> (nat \<rightharpoonup> real) \<Rightarrow> 'm \<Rightarrow> exn + real" where
  "raw_score tk fscores m =
     (let fps = GetNonzeroElements tk (GetMorganFingerprint tk m 2 False);
          (score1, nf) = fragment_loop fscores fps 0 0
      in if nf = 0 then Inl ZeroDivisionError
         else
           let score1 = score1 / real nf;
               nAtoms = GetNumAtoms tk m;
               nChiralCenters = FindMolChiralCenters tk m;
               nBridgeheads = CalcNumBridgeheadAtoms tk m;
               nSpiro = CalcNumSpiroAtoms tk m;
               nMacrocycles = length (filter (\<lambda>x. length x > 8) (AtomRings tk m));
               sizePenalty = real nAtoms powr (1005 / 1000) - real nAtoms;
               stereoPenalty = log 10 (real nChiralCenters + 1);
               spiroPenalty = log 10 (real nSpiro + 1);
               bridgePenalty = log 10 (real nBridgeheads + 1);
               macrocyclePenalty = (if nMacrocycles > 0 then log 10 2 else 0);
               score2 = 0 - sizePenalty - stereoPenalty - spiroPenalty - bridgePenalty
                          - macrocyclePenalty;
               score3 = (if nAtoms > length fps
                         then ln (real nAtoms / real (length fps)) * (1 / 2) else 0)
           in Inr (score1 + score2 + score3))"

text \<open>
  The end of \<^verbatim>\<open>calculateScore\<close>: the transformation with \<^verbatim>\<open>min = -4.0\<close> and
  \<^verbatim>\<open>max = 2.5\<close>, the smoothing \<^verbatim>\<open>if sascore > 8.: sascore = 8. + math.log(sascore+1.-9.)\<close>
  and the two bounds.
\<close>

definition rescale :: "real \<Rightarrow> real" where
  "rescale sascore = 11 - (sascore - (- 4) + 1) / (5 / 2 - (- 4)) * 9"

definition smooth :: "real \<Rightarrow> real" where
  "smooth sascore = (if sascore > 8 then 8 + ln (sascore + 1 - 9) else sascore)"

definition bound :: "real \<Rightarrow> real" where
  "bound sascore = (if sascore > 10 then 10 else if sascore < 1 then 1 else sascore)"

definition calculateScore :: "('m, 'fp) rdkit \<Rightarrow> (nat \<rightharpoonup> real) \<Rightarrow> 'm \<Rightarrow> exn + real" where
  "calculateScore tk fscores m =
     (case raw_score tk fscores m of
        Inl e \<Rightarrow> Inl e
      | Inr sascore \<Rightarrow> Inr (bound (smooth (rescale sascore))))"

text \<open>\<^verbatim>\<open>SA\<close>; its argument is a string or \<^verbatim>\<open>None\<close>.\<close>

definition SA :: "('m, 'fp) rdkit \<Rightarrow> (nat \<rightharpoonup> real) \<Rightarrow> string option \<Rightarrow> exn + real" where
  "SA tk fscores s =
     (case s of
        None \<Rightarrow> Inr 100
      | Some smiles \<Rightarrow>
          (case MolFromSmiles tk smiles of
             None \<Rightarrow> Inr 100
           | Some mol \<Rightarrow> calculateScore tk fscores mol))"

section \<open>Scoring functions\<close>

definition similarity ::
  "('m, 'fp) rdkit \<Rightarrow> string option \<Rightarrow> string option \<Rightarrow> exn + real" where
  "similarity tk a b =
     (case (a, b) of
        (Some a', Some b') \<Rightarrow>
          (case (MolFromSmiles tk a', MolFromSmiles tk b') of
             (Some amol, Some bmol) \<Rightarrow>
               Inr (TanimotoSimilarity tk (GetMorganFingerprintAsBitVect tk amol)
                      (GetMorganFingerprintAsBitVect tk bmol))
           | _ \<Rightarrow> Inr 0)
      | _ \<Rightarrow> Inr 0)"

text \<open>\<^verbatim>\<open>qed\<close> of the source; the name is a keyword here, hence the suffix.\<close>

definition qed_score :: "('m, 'fp) rdkit \<Rightarrow> string option \<Rightarrow> exn + real" where
  "qed_score tk s =
     (case s of
        None \<Rightarrow> Inr 0
      | Some smiles \<Rightarrow>
          (case MolFromSmiles tk smiles of
             None \<Rightarrow> Inr 0
           | Some mol \<Rightarrow> Inr (QED_qed tk mol)))"

text \<open>
  \<^verbatim>\<open>fingerprints_from_mol\<close> folds the counts into a vector of 2048 entries; \<^verbatim>\<open>drd2\<close>
  hands it to the classifier, whose \<^verbatim>\<open>predict_proba(fp)[:, 1]\<close> is the parameter
  \<open>predict_proba\<close>.
\<close>

definition fingerprints_from_mol :: "('m, 'fp) rdkit \<Rightarrow> 'm \<Rightarrow> nat list" where
  "fingerprints_from_mol tk mol =
     fold (\<lambda>(idx, v) nfp. nfp[idx mod 2048 := nfp ! (idx mod 2048) + v])
       (GetNonzeroElements tk (GetMorganFingerprint tk mol 3 True)) (replicate 2048 0)"

definition drd2 :: "('m, 'fp) rdkit \<Rightarrow> (nat list \<Rightarrow> real) \<Rightarrow> string \<Rightarrow> exn + real" where
  "drd2 tk predict_proba smile =
     (case MolFromSmiles tk smile of
        Some mol \<Rightarrow> Inr (predict_proba (fingerprints_from_mol tk mol))
      | None \<Rightarrow> Inr 0)"

text \<open>
  \<^verbatim>\<open>rediscovery_meta\<close>: the object keeps the name of its fingerprint function and the
  fingerprint of the target.
\<close>

record 'fp rediscovery_meta =
  similarity_func :: fp_name
  target_fp :: 'fp

definition rediscovery_meta_init ::
  "('m, 'fp) rdkit \<Rightarrow> string \<Rightarrow> fp_name \<Rightarrow> exn + 'fp rediscovery_meta" where
  "rediscovery_meta_init tk target_smiles fp =
     (case fp2fpfunc fp tk target_smiles of
        Inl e \<Rightarrow> Inl e
      | Inr t \<Rightarrow> Inr \<lparr>similarity_func = fp, target_fp = t\<rparr>)"

definition rediscovery_meta_call ::
  "('m, 'fp) rdkit \<Rightarrow> 'fp rediscovery_meta \<Rightarrow> string \<Rightarrow> exn + real" where
  "rediscovery_meta_call tk self test_smiles =
     (case fp2fpfunc (similarity_func self) tk test_smiles of
        Inl e \<Rightarrow> Inl e
      | Inr test_fp \<Rightarrow> Inr (TanimotoSimilarity tk (target_fp self) test_fp))"

text \<open>
  Sequencing of statements that can raise: the first exception ends the function.
\<close>

definition and_then :: "exn + 'a \<Rightarrow> ('a \<Rightarrow> exn + 'b) \<Rightarrow> exn + 'b" where
  "and_then r f = (case r of Inl e \<Rightarrow> Inl e | Inr v \<Rightarrow> f v)"

definition osimertinib_smiles :: string where
  "osimertinib_smiles = ''COc1cc(N(C)CCN(C)C)c(NC(=O)C=C)cc1Nc2nccc(n2)c3cn(C)c4ccccc34''"

text \<open>
  \<^verbatim>\<open>osimertinib_mpo\<close>, statement by statement. The two fingerprints of the target are
  cached in globals by the first call; they are the same at every call and the model
  computes them each time. \<^verbatim>\<open>gmean\<close> of scipy is a parameter.
  \<^verbatim>\<open>Descriptors.TPSA(molecule)\<close> raises \<open>ArgumentError\<close> when \<^verbatim>\<open>molecule\<close> is
  \<^verbatim>\<open>None\<close>.
\<close>

definition osimertinib_mpo ::
  "('m, 'fp) rdkit \<Rightarrow> (real list \<Rightarrow> real) \<Rightarrow> string \<Rightarrow> exn + real" where
  "osimertinib_mpo tk gmean test_smiles =
     and_then (smiles_2_fingerprint_FCFP4 tk osimertinib_smiles) (\<lambda>osimertinib_fp_fcfc4.
     and_then (smiles_2_fingerprint_ECFP6 tk osimertinib_smiles) (\<lambda>osimertinib_fp_ecfc6.
     and_then (ClippedScoreModifier_init (8 / 10) 0 1 0) (\<lambda>sim_v1_modifier.
     and_then (MinGaussianModifier_init (85 / 100) (1 / 10)) (\<lambda>sim_v2_modifier.
     and_then (MaxGaussianModifier_init 100 10) (\<lambda>tpsa_modifier.
     and_then (MinGaussianModifier_init 1 1) (\<lambda>logp_modifier.
     let molecule = smiles_to_rdkit_mol tk test_smiles in
     and_then (smiles_2_fingerprint_FCFP4 tk test_smiles) (\<lambda>fp_fcfc4.
     and_then (smiles_2_fingerprint_ECFP6 tk test_smiles) (\<lambda>fp_ecfc6.
     and_then (case molecule of None \<Rightarrow> Inl ArgumentError
               | Some mol \<Rightarrow> call tpsa_modifier (TPSA tk mol)) (\<lambda>tpsa_score.
     and_then (case molecule of None \<Rightarrow> Inl ArgumentError
               | Some mol \<Rightarrow> call logp_modifier (MolLogP tk mol)) (\<lambda>logp_score.
     and_then (call sim_v1_modifier (TanimotoSimilarity tk osimertinib_fp_fcfc4 fp_fcfc4))
       (\<lambda>similarity_v1.
     and_then (call sim_v2_modifier (TanimotoSimilarity tk osimertinib_fp_ecfc6 fp_ecfc6))
       (\<lambda>similarity_v2.
     Inr (gmean [tpsa_score, logp_score, similarity_v1, similarity_v2])))))))))))))"

subsection \<open>A toolkit for concrete evaluations\<close>

text \<open>
  An interpretation of the toolkit on which the functions above are evaluated. Its
  molecules are numbered: it parses the empty string to molecule 0, which has no atoms
  and an empty fingerprint, as RDKit does; \<^verbatim>\<open>C\<close> to molecule 1, one atom with one
  fragment; the osimertinib string to molecule 2; and no other string. The fragment
  identifiers and descriptor values are placeholders.
\<close>

definition example_toolkit :: "(nat, (nat \<times> nat) list) rdkit" where
  "example_toolkit =
     \<lparr> MolFromSmiles = (\<lambda>s. if s = [] then Some 0 else if s = ''C'' then Some 1
                            else if s = osimertinib_smiles then Some 2 else None),
       SanitizeMol = (\<lambda>m. True),
       GetMorganFingerprint = (\<lambda>m radius useFeatures. if m = 0 then [] else [(m + radius, m)]),
       GetAtomPairFingerprint = (\<lambda>m. []),
       GetMorganFingerprintAsBitVect = (\<lambda>m. if m = 0 then [] else [(m, 1)]),
       GetNonzeroElements = (\<lambda>fp. fp),
       TanimotoSimilarity = (\<lambda>a b. if a = b then 1 else 0),
       GetNumAtoms = (\<lambda>m. m),
       FindMolChiralCenters = (\<lambda>m. 0),
       CalcNumSpiroAtoms = (\<lambda>m. 0),
       CalcNumBridgeheadAtoms = (\<lambda>m. 0),
       AtomRings = (\<lambda>m. []),
       TPSA = (\<lambda>m. 0),
       MolLogP = (\<lambda>m. 0),
       QED_qed = (\<lambda>m. 1 / 2) \<rparr>"

section \<open>Properties of the tree analysis\<close>

text \<open>
  C1. A result that carries the key \<^verbatim>\<open>error\<close> is answered with the tuple
  \<^verbatim>\<open>(-1, {}, 11, -1, -1, -1)\<close>, whatever else it carries.
\<close>

theorem tree_analysis_error:
  "error current \<noteq> None \<Longrightarrow> tree_analysis current = Inr (- 1, [], 11, - 1, - 1, - 1)"
  by (simp add: tree_analysis_def)

text \<open>C1 at a result that carries an error message and a price.\<close>

theorem tree_analysis_error_witness:
  "error \<lparr>error = Some ''celery'', price = Some 5, trees = None\<rparr> \<noteq> None \<and>
   tree_analysis \<lparr>error = Some ''celery'', price = Some 5, trees = None\<rparr>
     = Inr (- 1, [], 11, - 1, - 1, - 1)"
  using tree_analysis_error [of "\<lparr>error = Some ''celery'', price = Some 5, trees = None\<rparr>"]
  by simp

text \<open>
  C2, as the code has it. On \<^verbatim>\<open>{"trees": []}\<close> the loop stops in its first iteration
  with \<^verbatim>\<open>status\<close> still \<^verbatim>\<open>{0: 1}\<close>, so \<^verbatim>\<open>synthesizability\<close> is 0, the plausibility
  \<^verbatim>\<open>p_score*synthesizability\<close> is 0, the step count is set to 11 and the price to -1:
  the result is \<^verbatim>\<open>(0, {0: 1}, 11, 0, 0, -1)\<close>.
\<close>

theorem tree_analysis_empty_trees:
  "tree_analysis \<lparr>error = None, price = None, trees = Some []\<rparr>
     = Inr (0, [(0, 1)], 11, 0, 0, - 1)"
  by (simp add: tree_analysis_def after_loop_def py_int_def)

text \<open>
  C2 as stated fails: the result on \<^verbatim>\<open>{"trees": []}\<close> is not
  \<^verbatim>\<open>(0, {}, 11, -1, 0, -1)\<close>.
\<close>

theorem tree_analysis_empty_trees_counterexample:
  "tree_analysis \<lparr>error = None, price = None, trees = Some []\<rparr>
     \<noteq> Inr (0, [], 11, - 1, 0, - 1)"
  by (simp add: tree_analysis_def after_loop_def py_int_def)

text \<open>
  C7. Past the test for \<^verbatim>\<open>error\<close>, a result that carries a \<^verbatim>\<open>price\<close> is answered
  with \<^verbatim>\<open>(0, {}, 0, 1, 1, price)\<close>; a result without \<^verbatim>\<open>price\<close> whose first tree has
  a \<^verbatim>\<open>ppg\<close> other than zero at its root is answered with \<^verbatim>\<open>(0, {}, 0, 1, 1, ppg)\<close>.
\<close>

theorem tree_analysis_purchasable:
  "error current = None \<Longrightarrow>
     (price current = Some p \<longrightarrow> tree_analysis current = Inr (0, [], 0, 1, 1, p)) \<and>
     (price current = None \<and> trees current = Some (t # ts) \<and> ppg t = Some g \<and> g \<noteq> 0
        \<longrightarrow> tree_analysis current = Inr (0, [], 0, 1, 1, g))"
  by (simp add: tree_analysis_def)

text \<open>
  C7 at \<^verbatim>\<open>{"price": 5}\<close> and at a result with two trees, the first with a \<^verbatim>\<open>ppg\<close> of
  3 at its root.
\<close>

theorem tree_analysis_purchasable_witness:
  "tree_analysis \<lparr>error = None, price = Some 5, trees = None\<rparr> = Inr (0, [], 0, 1, 1, 5) \<and>
   tree_analysis \<lparr>error = None, price = None,
       trees = Some [Node (Some 3) None (Some []), Node (Some 0) None (Some [])]\<rparr>
     = Inr (0, [], 0, 1, 1, 3)"
  using tree_analysis_purchasable [of "\<lparr>error = None, price = Some 5, trees = None\<rparr>" 5]
    tree_analysis_purchasable [of "\<lparr>error = None, price = None,
       trees = Some [Node (Some 3) None (Some []), Node (Some 0) None (Some [])]\<rparr>" _
       "Node (Some 3) None (Some [])" "[Node (Some 0) None (Some [])]" 3]
  by simp

text \<open>
  A full traversal, for comparison with the source: a root that is not purchasable, one
  reaction of plausibility 0.9 below it, and two purchasable reactants.
\<close>

lemma tree_analysis_one_step:
  "tree_analysis \<lparr>error = None, price = None,
       trees = Some [Node (Some 0) None (Some [Node None (Some (9 / 10))
         (Some [Node (Some 5) None (Some []), Node (Some 2) None (Some [])])])]\<rparr>
     = Inr (1, [(0, 1), (1 / 2, 1), (1, 2)], 1, 9 / 10, 1, 7)"
  by (simp add: tree_analysis_def after_loop_def py_int_def)

section \<open>Properties of the score modifiers\<close>

text \<open>
  C8. A \<^verbatim>\<open>GaussianModifier\<close> with positive \<^verbatim>\<open>sigma\<close> gives exactly 1 at \<^verbatim>\<open>mu\<close>, and
  of two inputs the one that is not farther from \<^verbatim>\<open>mu\<close> gets a value that is not
  smaller.
\<close>

theorem gaussian_peak_monotone:
  "0 < sigma \<Longrightarrow>
     call (GaussianModifier mu sigma) mu = Inr 1 \<and>
     (\<bar>x1 - mu\<bar> \<le> \<bar>x2 - mu\<bar> \<longrightarrow>
        (\<exists>y1 y2. call (GaussianModifier mu sigma) x1 = Inr y1 \<and>
                 call (GaussianModifier mu sigma) x2 = Inr y2 \<and> y2 \<le> y1))"
proof -
  assume s: "0 < sigma"
  have peak: "call (GaussianModifier mu sigma) mu = Inr 1"
    using s by (simp add: gaussian_def)
  have mono: "gaussian mu sigma x2 \<le> gaussian mu sigma x1" if d: "\<bar>x1 - mu\<bar> \<le> \<bar>x2 - mu\<bar>"
  proof -
    have "\<bar>(x1 - mu) / sigma\<bar> \<le> \<bar>(x2 - mu) / sigma\<bar>"
      using d s by (simp add: divide_right_mono)
    then have "((x1 - mu) / sigma) ^ 2 \<le> ((x2 - mu) / sigma) ^ 2"
      by (simp only: abs_le_square_iff)
    then show ?thesis
      by (simp add: gaussian_def)
  qed
  show ?thesis
    using peak mono s by simp
qed

text \<open>C8 at \<^verbatim>\<open>mu = 3\<close>, \<^verbatim>\<open>sigma = 2\<close>, with the inputs 4 and 1.\<close>

theorem gaussian_peak_monotone_witness:
  "(0::real) < 2 \<and> call (GaussianModifier 3 2) 3 = Inr 1 \<and>
   (\<exists>y1 y2. call (GaussianModifier 3 2) 4 = Inr y1 \<and>
            call (GaussianModifier 3 2) 1 = Inr y2 \<and> y2 \<le> y1)"
  using gaussian_peak_monotone [of 2 3 4 1] by simp

text \<open>
  C10. With \<^verbatim>\<open>low_score < high_score\<close>, the constructors of the two clipped modifiers
  raise \<open>ZeroDivisionError\<close> when \<^verbatim>\<open>upper_x\<close> equals \<^verbatim>\<open>lower_x\<close>, and they construct
  a modifier exactly when the two differ.
\<close>

theorem clipped_init_division_by_zero:
  "low_score < high_score \<Longrightarrow>
     ClippedScoreModifier_init x x high_score low_score = Inl ZeroDivisionError \<and>
     SmoothClippedScoreModifier_init x x high_score low_score = Inl ZeroDivisionError \<and>
     ((\<exists>m. ClippedScoreModifier_init upper_x lower_x high_score low_score = Inr m)
        \<longleftrightarrow> upper_x \<noteq> lower_x) \<and>
     ((\<exists>m. SmoothClippedScoreModifier_init upper_x lower_x high_score low_score = Inr m)
        \<longleftrightarrow> upper_x \<noteq> lower_x)"
  by (simp add: ClippedScoreModifier_init_def SmoothClippedScoreModifier_init_def Let_def)

text \<open>C10 at the scores 0 and 1, with both x-values 1 and with the x-values 1 and 0.\<close>

theorem clipped_init_division_by_zero_witness:
  "(0::real) < 1 \<and>
   ClippedScoreModifier_init 1 1 1 0 = Inl ZeroDivisionError \<and>
   SmoothClippedScoreModifier_init 1 1 1 0 = Inl ZeroDivisionError \<and>
   (\<exists>m. ClippedScoreModifier_init 1 0 1 0 = Inr m) \<and>
   (\<exists>m. SmoothClippedScoreModifier_init 1 0 1 0 = Inr m)"
  using clipped_init_division_by_zero [of 0 1 1 1 0] by simp

text \<open>
  C6, as the code has it. The two clipped modifiers test \<^verbatim>\<open>low_score < high_score\<close>
  in their constructors and raise \<open>AssertionError\<close> there when it fails; a clipped
  modifier that was constructed returns a value on every input. The constructors of the
  other classes test nothing and construct a modifier from any arguments.
\<close>

theorem modifier_validation:
  "(\<not> low_score < high_score \<longrightarrow>
      ClippedScoreModifier_init upper_x lower_x high_score low_score = Inl AssertionError \<and>
      SmoothClippedScoreModifier_init upper_x lower_x high_score low_score = Inl AssertionError) \<and>
   (ClippedScoreModifier_init upper_x lower_x high_score low_score = Inr m \<longrightarrow>
      (\<exists>y. call m x = Inr y)) \<and>
   (SmoothClippedScoreModifier_init upper_x lower_x high_score low_score = Inr m' \<longrightarrow>
      (\<exists>y. call m' x = Inr y)) \<and>
   ChainedModifier_init ms = Inr (ChainedModifier ms) \<and>
   LinearModifier_init a = Inr (LinearModifier a) \<and>
   SquaredModifier_init a b = Inr (SquaredModifier a b) \<and>
   AbsoluteScoreModifier_init a = Inr (AbsoluteScoreModifier a) \<and>
   GaussianModifier_init a b = Inr (GaussianModifier a b) \<and>
   MinMaxGaussianModifier_init a b c = Inr (MinMaxGaussianModifier a b c) \<and>
   ThresholdedLinearModifier_init a = Inr (ThresholdedLinearModifier a)"
  by (auto simp: ClippedScoreModifier_init_def SmoothClippedScoreModifier_init_def Let_def
      ChainedModifier_init_def LinearModifier_init_def SquaredModifier_init_def
      AbsoluteScoreModifier_init_def GaussianModifier_init_def MinMaxGaussianModifier_init_def
      ThresholdedLinearModifier_init_def split: if_splits)

text \<open>
  C6 at the scores 1 and 0 in the wrong order, and at the modifiers constructed from the
  x-values 1 and 0 and the scores 1 and 0.
\<close>

theorem modifier_validation_witness:
  "ClippedScoreModifier_init 1 0 0 1 = Inl AssertionError \<and>
   SmoothClippedScoreModifier_init 1 0 0 1 = Inl AssertionError \<and>
   ClippedScoreModifier_init 1 0 1 0 = Inr (ClippedScoreModifier 1 0 1 0 1 0) \<and>
   (\<exists>y. call (ClippedScoreModifier 1 0 1 0 1 0) (1 / 2) = Inr y) \<and>
   SmoothClippedScoreModifier_init 1 0 1 0 = Inr (SmoothClippedScoreModifier 1 0 1 0 4 (1 / 2) 1) \<and>
   (\<exists>y. call (SmoothClippedScoreModifier 1 0 1 0 4 (1 / 2) 1) (1 / 2) = Inr y)"
proof -
  have c: "ClippedScoreModifier_init 1 0 1 0 = Inr (ClippedScoreModifier 1 0 1 0 1 0)"
    by (simp add: ClippedScoreModifier_init_def)
  have s: "SmoothClippedScoreModifier_init 1 0 1 0
             = Inr (SmoothClippedScoreModifier 1 0 1 0 4 (1 / 2) 1)"
    by (simp add: SmoothClippedScoreModifier_init_def)
  have wrong: "\<not> (1::real) < 0"
    by simp
  from modifier_validation [where low_score = 1 and high_score = 0 and upper_x = 1
      and lower_x = 0] wrong
  have v: "ClippedScoreModifier_init 1 0 0 1 = Inl AssertionError \<and>
           SmoothClippedScoreModifier_init 1 0 0 1 = Inl AssertionError"
    by blast
  from modifier_validation [where low_score = 0 and high_score = 1 and upper_x = 1
      and lower_x = 0 and m = "ClippedScoreModifier 1 0 1 0 1 0"
      and m' = "SmoothClippedScoreModifier 1 0 1 0 4 (1 / 2) 1" and x = "1 / 2"] c s
  have r: "(\<exists>y. call (ClippedScoreModifier 1 0 1 0 1 0) (1 / 2) = Inr y) \<and>
           (\<exists>y. call (SmoothClippedScoreModifier 1 0 1 0 4 (1 / 2) 1) (1 / 2) = Inr y)"
    by blast
  from v c s r show ?thesis
    by blast
qed

text \<open>
  C6 as stated fails: \<^verbatim>\<open>GaussianModifier(mu=0, sigma=0)\<close> is constructed, and it is
  the call on the input 1 that raises \<open>ZeroDivisionError\<close>.
\<close>

theorem modifier_validation_counterexample:
  "GaussianModifier_init 0 0 = Inr (GaussianModifier 0 0) \<and>
   call (GaussianModifier 0 0) 1 = Inl ZeroDivisionError"
  by (simp add: GaussianModifier_init_def)

text \<open>The values that the documentation of the clipped modifier implies.\<close>

lemma clipped_values:
  "call (ClippedScoreModifier 1 0 1 0 1 0) (1 / 2) = Inr (1 / 2) \<and>
   call (ClippedScoreModifier 1 0 1 0 1 0) 2 = Inr 1 \<and>
   call (ClippedScoreModifier 1 0 1 0 1 0) (- 1) = Inr 0"
  by simp

section \<open>Properties of the formula parser\<close>

lemma takeWhile_run:
  "list_all P xs \<Longrightarrow> ys = [] \<or> \<not> P (hd ys) \<Longrightarrow> takeWhile P (xs @ ys) = xs"
  by (induction xs) (cases ys; simp)+

lemma dropWhile_run:
  "list_all P xs \<Longrightarrow> ys = [] \<or> \<not> P (hd ys) \<Longrightarrow> dropWhile P (xs @ ys) = ys"
  by (induction xs) (cases ys; simp)+

lemma digit_not_lower: "is_digit c \<Longrightarrow> \<not> is_lower c"
  by (simp add: is_digit_def is_lower_def code_def)

text \<open>
  One match of the pattern: a capital letter, small letters, digits, and a rest that
  cannot prolong the match.
\<close>

lemma findall_token:
  assumes up: "is_upper c" and lows: "list_all is_lower lows" and ds: "list_all is_digit ds"
    and rest: "rest = [] \<or> (\<not> is_digit (hd rest) \<and> (ds = [] \<longrightarrow> \<not> is_lower (hd rest)))"
  shows "findall (c # lows @ ds @ rest) = (c # lows, ds) # findall rest"
proof -
  have stop_lower: "ds @ rest = [] \<or> \<not> is_lower (hd (ds @ rest))"
  proof (cases ds)
    case Nil
    with rest show ?thesis by auto
  next
    case (Cons d ds')
    with ds have "is_digit d" by simp
    with Cons show ?thesis by (simp add: digit_not_lower)
  qed
  have stop_digit: "rest = [] \<or> \<not> is_digit (hd rest)"
    using rest by auto
  have t1: "takeWhile is_lower (lows @ ds @ rest) = lows"
    by (rule takeWhile_run [OF lows stop_lower])
  have d1: "dropWhile is_lower (lows @ ds @ rest) = ds @ rest"
    by (rule dropWhile_run [OF lows stop_lower])
  have t2: "takeWhile is_digit (ds @ rest) = ds"
    by (rule takeWhile_run [OF ds stop_digit])
  have d2: "dropWhile is_digit (ds @ rest) = rest"
    by (rule dropWhile_run [OF ds stop_digit])
  show ?thesis
    using up by (simp add: t1 d1 t2 d2)
qed

text \<open>
  C9, as the code has it. \<^verbatim>\<open>C2H6\<close> is parsed to \<^verbatim>\<open>[("C",2),("H",6)]\<close>, 8 atoms in
  all. A token is a capital letter, then small letters, then digits; it is returned with
  the number its digits spell, or 1 without digits, and parsing goes on behind it. A
  character that starts no token is skipped. The parser returns a list on every string:
  it has no error.
\<close>

theorem parse_molecular_formula_tokens:
  "parse_molecular_formula ''C2H6'' = [(''C'', 2), (''H'', 6)] \<and>
   total_atom_num (parse_molecular_formula ''C2H6'') = 8 \<and>
   (is_upper c \<and> list_all is_lower lows \<and> list_all is_digit ds \<and>
    (rest = [] \<or> (\<not> is_digit (hd rest) \<and> (ds = [] \<longrightarrow> \<not> is_lower (hd rest)))) \<longrightarrow>
      parse_molecular_formula (c # lows @ ds @ rest)
        = (c # lows, if ds = [] then 1 else int_of_digits ds) # parse_molecular_formula rest) \<and>
   (\<not> is_upper c \<longrightarrow> parse_molecular_formula (c # rest) = parse_molecular_formula rest)"
proof -
  have ex: "parse_molecular_formula ''C2H6'' = [(''C'', 2), (''H'', 6)]"
    by (simp add: parse_molecular_formula_def is_upper_def is_lower_def is_digit_def code_def
        int_of_digits_def digit_value_def)
  have total: "total_atom_num (parse_molecular_formula ''C2H6'') = 8"
    by (simp add: ex total_atom_num_def)
  have token: "parse_molecular_formula (c # lows @ ds @ rest)
        = (c # lows, if ds = [] then 1 else int_of_digits ds) # parse_molecular_formula rest"
    if "is_upper c" "list_all is_lower lows" "list_all is_digit ds"
      "rest = [] \<or> (\<not> is_digit (hd rest) \<and> (ds = [] \<longrightarrow> \<not> is_lower (hd rest)))"
    using findall_token [OF that] by (simp add: parse_molecular_formula_def)
  have skip: "parse_molecular_formula (c # rest) = parse_molecular_formula rest"
    if "\<not> is_upper c"
    using that by (simp add: parse_molecular_formula_def)
  from ex total token skip show ?thesis
    by blast
qed

text \<open>C9 at the token \<^verbatim>\<open>Br12\<close> before a question mark, and at the question mark.\<close>

theorem parse_molecular_formula_tokens_witness:
  "parse_molecular_formula ''Br12?'' = [(''Br'', 12)] \<and>
   parse_molecular_formula ''?'' = parse_molecular_formula []"
proof -
  have a: "is_upper CHR ''B'' \<and> list_all is_lower ''r'' \<and> list_all is_digit ''12'' \<and>
    (''?'' = [] \<or> (\<not> is_digit (hd ''?'') \<and> (''12'' = [] \<longrightarrow> \<not> is_lower (hd ''?''))))"
    by (simp add: is_upper_def is_lower_def is_digit_def code_def)
  have b: "\<not> is_upper CHR ''?''"
    by (simp add: is_upper_def code_def)
  have c: "parse_molecular_formula [] = []"
    by (simp add: parse_molecular_formula_def)
  have d: "int_of_digits ''12'' = 12"
    by (simp add: int_of_digits_def digit_value_def code_def)
  from parse_molecular_formula_tokens [of "CHR ''B''" "''r''" "''12''" "''?''"] a
  have "parse_molecular_formula ''Br12?'' = (''Br'', 12) # parse_molecular_formula ''?''"
    by (simp add: d)
  moreover from parse_molecular_formula_tokens [of "CHR ''?''" "[]" "[]" "[]"] b
  have "parse_molecular_formula ''?'' = parse_molecular_formula []"
    by simp
  ultimately show ?thesis
    by (simp add: c)
qed

text \<open>
  C9 as stated fails: \<^verbatim>\<open>Xx2?h\<close> holds the unknown element \<^verbatim>\<open>Xx\<close>, a question mark
  and a small letter without its capital, and it is parsed to \<^verbatim>\<open>[("Xx",2)]\<close>.
\<close>

theorem parse_molecular_formula_counterexample:
  "parse_molecular_formula ''Xx2?h'' = [(''Xx'', 2)]"
  by (simp add: parse_molecular_formula_def is_upper_def is_lower_def is_digit_def code_def
      int_of_digits_def digit_value_def)

section \<open>Properties of the scoring functions\<close>

text \<open>
  The functions that test for \<^verbatim>\<open>None\<close> return their fallback on a string the toolkit
  cannot parse.
\<close>

lemma scoring_fallbacks:
  "MolFromSmiles tk s = None \<Longrightarrow>
     similarity tk (Some s) b = Inr 0 \<and> similarity tk a (Some s) = Inr 0 \<and>
     qed_score tk (Some s) = Inr 0 \<and> SA tk fscores (Some s) = Inr 100 \<and>
     drd2 tk predict_proba s = Inr 0"
  by (auto simp: similarity_def qed_score_def SA_def drd2_def split: option.splits)

text \<open>
  C3 fails on the code. \<^verbatim>\<open>rediscovery_meta.__call__\<close> and \<^verbatim>\<open>osimertinib_mpo\<close> hand
  the \<^verbatim>\<open>None\<close> of \<^verbatim>\<open>smiles_to_rdkit_mol\<close> to the fingerprint function of the toolkit:
  on a string that does not parse they raise \<open>ArgumentError\<close> and return no score.
\<close>

theorem unparseable_input_raises:
  "smiles_to_rdkit_mol tk test_smiles = None \<Longrightarrow>
     rediscovery_meta_call tk self test_smiles = Inl ArgumentError \<and>
     osimertinib_mpo tk gmean test_smiles = Inl ArgumentError"
proof -
  assume n: "smiles_to_rdkit_mol tk test_smiles = None"
  have fp: "fp2fpfunc f tk test_smiles = Inl ArgumentError" for f
    using n
    by (cases f)
      (simp_all add: smiles_2_fingerprint_ECFP4_def smiles_2_fingerprint_FCFP4_def
        smiles_2_fingerprint_AP_def smiles_2_fingerprint_ECFP6_def)
  have r: "rediscovery_meta_call tk self test_smiles = Inl ArgumentError"
    by (simp add: rediscovery_meta_call_def fp)
  have o: "osimertinib_mpo tk gmean test_smiles = Inl ArgumentError"
  proof (cases "smiles_to_rdkit_mol tk osimertinib_smiles")
    case None
    then show ?thesis
      by (simp add: osimertinib_mpo_def and_then_def smiles_2_fingerprint_FCFP4_def)
  next
    case (Some mol)
    then show ?thesis
      by (simp add: osimertinib_mpo_def and_then_def smiles_2_fingerprint_FCFP4_def
          smiles_2_fingerprint_ECFP6_def ClippedScoreModifier_init_def
          MinGaussianModifier_init_def MaxGaussianModifier_init_def
          MinMaxGaussianModifier_init_def n)
  qed
  from r o show ?thesis by simp
qed

text \<open>
  C3 at the string \<^verbatim>\<open>c1ccccc\<close>, an unclosed ring, with the target \<^verbatim>\<open>C\<close> for the
  rediscovery.
\<close>

theorem unparseable_input_raises_witness:
  "smiles_to_rdkit_mol example_toolkit ''c1ccccc'' = None \<and>
   rediscovery_meta_init example_toolkit ''C'' ECFP4
     = Inr \<lparr>similarity_func = ECFP4, target_fp = [(3, 1)]\<rparr> \<and>
   rediscovery_meta_call example_toolkit \<lparr>similarity_func = ECFP4, target_fp = [(3, 1)]\<rparr>
     ''c1ccccc'' = Inl ArgumentError \<and>
   osimertinib_mpo example_toolkit (\<lambda>xs. root 4 (prod_list xs)) ''c1ccccc'' = Inl ArgumentError"
proof -
  have n: "smiles_to_rdkit_mol example_toolkit ''c1ccccc'' = None"
    by (simp add: smiles_to_rdkit_mol_def example_toolkit_def osimertinib_smiles_def)
  have i: "rediscovery_meta_init example_toolkit ''C'' ECFP4
     = Inr \<lparr>similarity_func = ECFP4, target_fp = [(3, 1)]\<rparr>"
    by (simp add: rediscovery_meta_init_def smiles_2_fingerprint_ECFP4_def
        smiles_to_rdkit_mol_def example_toolkit_def)
  from n i unparseable_input_raises [OF n] show ?thesis
    by simp
qed

section \<open>Properties of the synthetic accessibility score\<close>

lemma bound_range: "1 \<le> bound x \<and> bound x \<le> 10"
  by (simp add: bound_def)

text \<open>Whenever \<^verbatim>\<open>SA\<close> returns, it returns 100 or a value from 1 to 10.\<close>

lemma SA_range:
  "SA tk fscores s = Inr y \<Longrightarrow> y = 100 \<or> (1 \<le> y \<and> y \<le> 10)"
  using bound_range
  by (auto simp: SA_def calculateScore_def split: option.splits sum.splits)

text \<open>It returns whenever the molecule has a fragment with a count.\<close>

lemma fragment_loop_count:
  "snd (fragment_loop fscores fps score1 nf) = nf + sum_list (map snd fps)"
  by (induction fscores fps score1 nf rule: fragment_loop.induct) simp_all

lemma calculateScore_returns:
  "sum_list (map snd (GetNonzeroElements tk (GetMorganFingerprint tk m 2 False))) \<noteq> 0 \<Longrightarrow>
     \<exists>y. calculateScore tk fscores m = Inr y \<and> 1 \<le> y \<and> y \<le> 10"
proof -
  assume nz: "sum_list (map snd (GetNonzeroElements tk (GetMorganFingerprint tk m 2 False))) \<noteq> 0"
  obtain score1 nf where
    l: "fragment_loop fscores (GetNonzeroElements tk (GetMorganFingerprint tk m 2 False)) 0 0
          = (score1, nf)"
    by (cases "fragment_loop fscores (GetNonzeroElements tk (GetMorganFingerprint tk m 2 False)) 0 0")
  from fragment_loop_count [of fscores "GetNonzeroElements tk (GetMorganFingerprint tk m 2 False)" 0 0]
    l nz
  have "nf \<noteq> 0"
    by simp
  then obtain raw where "raw_score tk fscores m = Inr raw"
    by (simp add: raw_score_def l Let_def)
  then show ?thesis
    using bound_range by (simp add: calculateScore_def)
qed

text \<open>
  C4 fails on the code. A string that the toolkit parses to a molecule without fragments,
  as it does the empty string, takes \<^verbatim>\<open>calculateScore\<close> to the division
  \<^verbatim>\<open>score1 /= nf\<close> with \<^verbatim>\<open>nf = 0\<close>: \<^verbatim>\<open>SA\<close> raises \<open>ZeroDivisionError\<close> and returns no
  value from 1 to 10.
\<close>

theorem SA_no_fragment:
  "MolFromSmiles tk smiles = Some mol \<Longrightarrow>
   GetNonzeroElements tk (GetMorganFingerprint tk mol 2 False) = [] \<Longrightarrow>
     SA tk fscores (Some smiles) = Inl ZeroDivisionError"
  by (simp add: SA_def calculateScore_def raw_score_def)

text \<open>C4 at the empty string.\<close>

theorem SA_no_fragment_witness:
  "MolFromSmiles example_toolkit [] = Some 0 \<and>
   GetNonzeroElements example_toolkit (GetMorganFingerprint example_toolkit 0 2 False) = [] \<and>
   SA example_toolkit Map.empty (Some []) = Inl ZeroDivisionError"
proof -
  have a: "MolFromSmiles example_toolkit [] = Some 0"
    by (simp add: example_toolkit_def)
  have b: "GetNonzeroElements example_toolkit (GetMorganFingerprint example_toolkit 0 2 False) = []"
    by (simp add: example_toolkit_def)
  from a b SA_no_fragment [OF a b] show ?thesis
    by simp
qed

text \<open>
  The molecule of one atom whose only fragment is not in the table: its raw score is the
  default -4, which is transformed to 125/13 and smoothed to \<open>8 + ln (21/13)\<close>.
\<close>

lemma raw_methane: "raw_score example_toolkit Map.empty 1 = Inr (- 4)"
  by (simp add: raw_score_def example_toolkit_def)

lemma ln_bounds:
  "0 < ln (21 / 13 :: real)" "ln (21 / 13 :: real) \<le> 2"
  "0 < ln (34 / 13 :: real)" "ln (34 / 13 :: real) \<le> 2"
proof -
  show "0 < ln (21 / 13 :: real)" by simp
  show "0 < ln (34 / 13 :: real)" by simp
  have "ln (21 / 13 :: real) \<le> 21 / 13 - 1" by (rule ln_le_minus_one) simp
  then show "ln (21 / 13 :: real) \<le> 2" by simp
  have "ln (34 / 13 :: real) \<le> 34 / 13 - 1" by (rule ln_le_minus_one) simp
  then show "ln (34 / 13 :: real) \<le> 2" by simp
qed

lemma rescale_unseen: "rescale (- 4) = 125 / 13"
  by (simp add: rescale_def)

lemma smooth_unseen: "smooth (125 / 13) = 8 + ln (21 / 13)"
  by (simp add: smooth_def)

lemma bound_id: "0 < x \<Longrightarrow> x \<le> 2 \<Longrightarrow> bound (8 + x) = 8 + x"
  by (simp add: bound_def)

lemma calc_methane: "calculateScore example_toolkit Map.empty 1 = Inr (8 + ln (21 / 13))"
proof -
  have "calculateScore example_toolkit Map.empty 1 = Inr (bound (smooth (rescale (- 4))))"
    by (simp only: calculateScore_def raw_methane sum.case)
  also have "\<dots> = Inr (bound (8 + ln (21 / 13)))"
    by (simp only: rescale_unseen smooth_unseen)
  also have "\<dots> = Inr (8 + ln (21 / 13))"
    by (simp only: bound_id [OF ln_bounds(1) ln_bounds(2)])
  finally show ?thesis .
qed

text \<open>
  C5, as the code has it. The raw score is transformed to
  \<open>final = 11 - (raw - min + 1) / (max - min) * 9\<close> with \<open>min = -4\<close> and \<open>max = 2.5\<close>; a
  value above 8 is replaced by \<open>8 + ln (final + 1 - 9)\<close>, that is \<open>8 + ln (final - 8)\<close>;
  the result is then bounded to the interval from 1 to 10.
\<close>

theorem calculateScore_transformation:
  "raw_score tk fscores m = Inr raw \<Longrightarrow>
     calculateScore tk fscores m =
       Inr (let final = 11 - (raw - (- 4) + 1) / (5 / 2 - (- 4)) * 9;
                final = (if final > 8 then 8 + ln (final + 1 - 9) else final)
            in min 10 (max 1 final))"
  by (simp add: calculateScore_def rescale_def smooth_def bound_def Let_def min_def max_def)

text \<open>C5 at the molecule of one atom with an unseen fragment.\<close>

theorem calculateScore_transformation_witness:
  "raw_score example_toolkit Map.empty 1 = Inr (- 4) \<and>
   calculateScore example_toolkit Map.empty 1 = Inr (8 + ln (21 / 13))"
proof -
  have e: "(let final = 11 - (- 4 - (- 4) + 1) / (5 / 2 - (- 4)) * 9 :: real;
                final = (if final > 8 then 8 + ln (final + 1 - 9) else final)
            in min 10 (max 1 final)) = 8 + ln (21 / 13)"
    using ln_bounds(1) ln_bounds(2) by (simp add: Let_def min_def max_def)
  from calculateScore_transformation [OF raw_methane] raw_methane show ?thesis
    by (simp only: e simp_thms)
qed

text \<open>
  C5 as stated fails: at that molecule the transformed value 125/13 exceeds 8, and the
  score is not the bounded \<open>8 + ln (final - 8 + 1)\<close>.
\<close>

theorem calculateScore_smoothing_counterexample:
  "raw_score example_toolkit Map.empty 1 = Inr (- 4) \<and> rescale (- 4) > 8 \<and>
   calculateScore example_toolkit Map.empty 1
     \<noteq> Inr (bound (8 + ln (rescale (- 4) - 8 + 1)))"
proof -
  have gt: "rescale (- 4) > 8"
    by (simp add: rescale_unseen)
  have arg: "rescale (- 4) - 8 + 1 = 34 / 13"
    by (simp add: rescale_unseen)
  have claimed: "bound (8 + ln (rescale (- 4) - 8 + 1)) = 8 + ln (34 / 13)"
    by (simp only: arg bound_id [OF ln_bounds(3) ln_bounds(4)])
  have differ: "8 + ln (21 / 13 :: real) \<noteq> 8 + ln (34 / 13)"
    by simp
  have "calculateScore example_toolkit Map.empty 1
     \<noteq> Inr (bound (8 + ln (rescale (- 4) - 8 + 1)))"
    using differ by (simp only: calc_methane claimed sum.inject not_False_eq_True)
  with raw_methane gt show ?thesis
    by (simp only: simp_thms)
qed

end
